theory Spec2Isabelle
  imports Complex_Main
begin

section \<open>Numbers\<close>

text \<open>
  Every quantity of the analyser is a JavaScript \<open>number\<close>. A number is modelled as an
  exact real or one of the three special values that arithmetic on finite numbers can
  produce: a division by zero gives an infinity or \<open>NaN\<close>, and they propagate the way
  IEEE 754 prescribes. Rounding and overflow of finite results are not modelled
  (finite arithmetic is exact), and there is one zero: the sign of a zero, which only
  shows in the sign of an infinity obtained by dividing by it, is taken positive.
\<close>

datatype number = Fin real | PInf | NInf | NaN

text \<open>The infinity with the sign of \<open>s\<close>; \<open>NaN\<close> when \<open>s\<close> is zero.\<close>

definition inf_of :: "real \<Rightarrow> number" where
  "inf_of s = (if s = 0 then NaN else if 0 < s then PInf else NInf)"

instantiation number :: "{plus, minus, uminus, times, inverse, abs, ord}"
begin

fun uminus_number :: "number \<Rightarrow> number" where
  "uminus_number (Fin a) = Fin (- a)"
| "uminus_number PInf = NInf"
| "uminus_number NInf = PInf"
| "uminus_number NaN = NaN"

fun plus_number :: "number \<Rightarrow> number \<Rightarrow> number" where
  "plus_number NaN b = NaN"
| "plus_number a NaN = NaN"
| "plus_number (Fin a) (Fin b) = Fin (a + b)"
| "plus_number PInf NInf = NaN"
| "plus_number NInf PInf = NaN"
| "plus_number PInf b = PInf"
| "plus_number NInf b = NInf"
| "plus_number (Fin a) b = b"

definition minus_number :: "number \<Rightarrow> number \<Rightarrow> number" where
  "minus_number a b = a + (- b)"

fun times_number :: "number \<Rightarrow> number \<Rightarrow> number" where
  "times_number NaN b = NaN"
| "times_number a NaN = NaN"
| "times_number (Fin a) (Fin b) = Fin (a * b)"
| "times_number (Fin a) PInf = inf_of a"
| "times_number (Fin a) NInf = inf_of (- a)"
| "times_number PInf (Fin b) = inf_of b"
| "times_number NInf (Fin b) = inf_of (- b)"
| "times_number PInf PInf = PInf"
| "times_number PInf NInf = NInf"
| "times_number NInf PInf = NInf"
| "times_number NInf NInf = PInf"

fun divide_number :: "number \<Rightarrow> number \<Rightarrow> number" where
  "divide_number NaN b = NaN"
| "divide_number a NaN = NaN"
| "divide_number (Fin a) (Fin b) = (if b = 0 then inf_of a else Fin (a / b))"
| "divide_number (Fin a) PInf = Fin 0"
| "divide_number (Fin a) NInf = Fin 0"
| "divide_number PInf (Fin b) = (if 0 \<le> b then PInf else NInf)"
| "divide_number NInf (Fin b) = (if 0 \<le> b then NInf else PInf)"
| "divide_number a b = NaN"

definition inverse_number :: "number \<Rightarrow> number" where
  "inverse_number a = divide (Fin 1) a"

fun abs_number :: "number \<Rightarrow> number" where
  "abs_number (Fin a) = Fin \<bar>a\<bar>"
| "abs_number PInf = PInf"
| "abs_number NInf = PInf"
| "abs_number NaN = NaN"

text \<open>The comparisons \<open><=\<close> and \<open><\<close>: false as soon as one side is \<open>NaN\<close>.\<close>

fun less_eq_number :: "number \<Rightarrow> number \<Rightarrow> bool" where
  "less_eq_number NaN b = False"
| "less_eq_number a NaN = False"
| "less_eq_number (Fin a) (Fin b) = (a \<le> b)"
| "less_eq_number NInf b = True"
| "less_eq_number a PInf = True"
| "less_eq_number a b = False"

fun less_number :: "number \<Rightarrow> number \<Rightarrow> bool" where
  "less_number NaN b = False"
| "less_number a NaN = False"
| "less_number (Fin a) (Fin b) = (a < b)"
| "less_number PInf b = False"
| "less_number a NInf = False"
| "less_number a b = True"

instance ..

end

text \<open>Strict equality \<open>===\<close> of two numbers: \<open>NaN\<close> equals nothing.\<close>

definition strict_eq :: "number \<Rightarrow> number \<Rightarrow> bool" where
  "strict_eq a b = (a \<noteq> NaN \<and> b \<noteq> NaN \<and> a = b)"

text \<open>Truthiness of a number: zero and \<open>NaN\<close> are falsy.\<close>

fun truthy :: "number \<Rightarrow> bool" where
  "truthy (Fin a) = (a \<noteq> 0)"
| "truthy NaN = False"
| "truthy a = True"

text \<open>\<open>Number.isFinite\<close>.\<close>

fun is_finite :: "number \<Rightarrow> bool" where
  "is_finite (Fin a) = True"
| "is_finite a = False"

text \<open>\<open>Math.floor\<close>.\<close>

fun floor_number :: "number \<Rightarrow> number" where
  "floor_number (Fin a) = Fin (of_int \<lfloor>a\<rfloor>)"
| "floor_number a = a"

definition is_int :: "real \<Rightarrow> bool" where
  "is_int e = (of_int \<lfloor>e\<rfloor> = e)"

text \<open>
  A finite, non-zero base to a finite, non-zero exponent. An integral exponent is
  computed by repeated multiplication, any other by \<open>powr\<close>; a negative base with a
  fractional exponent has no real power.
\<close>

definition fin_pow :: "real \<Rightarrow> real \<Rightarrow> number" where
  "fin_pow b e =
     (if is_int e then Fin (b powi \<lfloor>e\<rfloor>)
      else if 0 < b then Fin (b powr e)
      else NaN)"

text \<open>The operator \<open>**\<close> (\<open>Number::exponentiate\<close> of the language standard).\<close>

fun pow :: "number \<Rightarrow> number \<Rightarrow> number" where
  "pow b NaN = NaN"
| "pow b (Fin e) =
     (if e = 0 then Fin 1
      else case b of
        NaN \<Rightarrow> NaN
      | PInf \<Rightarrow> (if 0 < e then PInf else Fin 0)
      | NInf \<Rightarrow> (if 0 < e then (if is_int e \<and> odd \<lfloor>e\<rfloor> then NInf else PInf) else Fin 0)
      | Fin x \<Rightarrow> (if x = 0 then (if 0 < e then Fin 0 else PInf) else fin_pow x e))"
| "pow NaN e = NaN"
| "pow PInf PInf = PInf"
| "pow PInf NInf = Fin 0"
| "pow NInf PInf = PInf"
| "pow NInf NInf = Fin 0"
| "pow (Fin x) PInf = (if 1 < \<bar>x\<bar> then PInf else if \<bar>x\<bar> = 1 then NaN else Fin 0)"
| "pow (Fin x) NInf = (if 1 < \<bar>x\<bar> then Fin 0 else if \<bar>x\<bar> = 1 then NaN else PInf)"

section \<open>Deal terms and financial constants\<close>

record RealEstateDeal =
  salePrice :: number
  downpaymentPercentage :: number
  annualMortgageInterestRate :: number
  mortgageAmortization :: number
  propertyTaxRate :: number
  monthlyHoaDues :: number
  vacancyRate :: number
  monthlyRent :: number
  landlordPaidUtilities :: bool
  needsPropertyManagement :: bool
  unitCount :: number
  newConstruction :: bool
  closingEquity :: "number option"

definition CLOSING_COST_RATE :: number where "CLOSING_COST_RATE = Fin 0.032"
definition PMI_RATE :: number where "PMI_RATE = Fin 0.0098"
definition INVESTMENT_YEAR_TIME_HORIZON :: nat where "INVESTMENT_YEAR_TIME_HORIZON = 5"
definition APPRECIATION_RATES_SFH :: number where "APPRECIATION_RATES_SFH = Fin 0.04"
definition APPRECIATION_RATES_RENT :: number where "APPRECIATION_RATES_RENT = Fin 0.025"
definition MAINTENANCE_RATES_NEW_CONSTRUCTION :: number where
  "MAINTENANCE_RATES_NEW_CONSTRUCTION = Fin 0.0015"
definition MAINTENANCE_RATES_EXISTING_CONSTRUCTION :: number where
  "MAINTENANCE_RATES_EXISTING_CONSTRUCTION = Fin 0.0054"
definition MANAGEMENT_RATES_SINGLE_FAMILY :: number where
  "MANAGEMENT_RATES_SINGLE_FAMILY = Fin 0.1"
definition MANAGEMENT_RATES_MULTI_FAMILY :: number where
  "MANAGEMENT_RATES_MULTI_FAMILY = Fin 0.08"
definition UNIT_UTILITY_COST :: number where "UNIT_UTILITY_COST = Fin 355"
definition CAPEX_RATE :: number where "CAPEX_RATE = Fin 0.01"
definition BASE_INSURANCE_RATE :: number where "BASE_INSURANCE_RATE = Fin 0.0044"
definition CONDO_INSURANCE_RATE :: number where "CONDO_INSURANCE_RATE = Fin 450"
definition MINIMUM_MONTHLY_CASHFLOW_PER_DOOR :: number where
  "MINIMUM_MONTHLY_CASHFLOW_PER_DOOR = Fin 100"
definition MINIMUM_ROI :: number where "MINIMUM_ROI = Fin 0.25"
definition MINIMUM_COC_ROI :: number where "MINIMUM_COC_ROI = Fin 0.05"

section \<open>MortgageCalculationService\<close>

record MortgageCalculationService =
  ms_deal :: RealEstateDeal
  ms_purchasePrice :: number

definition getDownPayment :: "MortgageCalculationService \<Rightarrow> number" where
  "getDownPayment ms =
     ms_purchasePrice ms * (downpaymentPercentage (ms_deal ms) / Fin 100)"

text \<open>\<open>closingEquity || 0\<close>: an absent or falsy contribution counts as zero.\<close>

definition getLoanAmount :: "MortgageCalculationService \<Rightarrow> number" where
  "getLoanAmount ms =
     (let closingEquity =
            (case closingEquity (ms_deal ms) of
               None \<Rightarrow> Fin 0
             | Some v \<Rightarrow> if truthy v then v else Fin 0)
      in ms_purchasePrice ms - getDownPayment ms - closingEquity)"

text \<open>The constant \<open>PMI\<close> of \<open>getMonthlyMortgagePayment\<close>.\<close>

definition monthlyPMI :: "MortgageCalculationService \<Rightarrow> number" where
  "monthlyPMI ms =
     (if Fin 20 \<le> downpaymentPercentage (ms_deal ms) then Fin 0
      else (ms_purchasePrice ms * PMI_RATE) / Fin 12)"

definition getMonthlyMortgagePayment :: "MortgageCalculationService \<Rightarrow> number" where
  "getMonthlyMortgagePayment ms =
     (let n = mortgageAmortization (ms_deal ms) * Fin 12;
          monthlyMortgageInterestRate =
            annualMortgageInterestRate (ms_deal ms) / Fin 100 / Fin 12;
          PMI = monthlyPMI ms
      in PMI +
         (getLoanAmount ms * monthlyMortgageInterestRate) /
           (Fin 1 - pow (Fin 1 + monthlyMortgageInterestRate) (- n)))"

section \<open>ExpenseCalculationService\<close>

record ExpenseCalculationService =
  es_deal :: RealEstateDeal
  es_purchasePrice :: number
  es_mortgageService :: MortgageCalculationService

definition getClosingCosts :: "ExpenseCalculationService \<Rightarrow> number" where
  "getClosingCosts es = CLOSING_COST_RATE * es_purchasePrice es"

definition getAnnualCapEx :: "ExpenseCalculationService \<Rightarrow> number" where
  "getAnnualCapEx es =
     (if Fin 0 < monthlyHoaDues (es_deal es) then Fin 0
      else es_purchasePrice es * CAPEX_RATE)"

definition getAnnualMaintenance :: "ExpenseCalculationService \<Rightarrow> number" where
  "getAnnualMaintenance es =
     (let rate = (if newConstruction (es_deal es) then MAINTENANCE_RATES_NEW_CONSTRUCTION
                  else MAINTENANCE_RATES_EXISTING_CONSTRUCTION)
      in es_purchasePrice es * rate)"

definition getAnnualInsurance :: "ExpenseCalculationService \<Rightarrow> number" where
  "getAnnualInsurance es =
     (if truthy (monthlyHoaDues (es_deal es)) then CONDO_INSURANCE_RATE
      else es_purchasePrice es * BASE_INSURANCE_RATE)"

definition getAnnualManagement :: "ExpenseCalculationService \<Rightarrow> number" where
  "getAnnualManagement es =
     (if \<not> needsPropertyManagement (es_deal es) then Fin 0
      else monthlyRent (es_deal es) * Fin 12 *
           (if Fin 4 < unitCount (es_deal es) then MANAGEMENT_RATES_MULTI_FAMILY
            else MANAGEMENT_RATES_SINGLE_FAMILY))"

definition getAnnualUtilities :: "ExpenseCalculationService \<Rightarrow> number" where
  "getAnnualUtilities es =
     (if \<not> landlordPaidUtilities (es_deal es) then Fin 0
      else unitCount (es_deal es) * UNIT_UTILITY_COST * Fin 12)"

record AnnualExpenses =
  annualMortgagePayment :: number
  annualHoaDues :: number
  annualUtilities :: number
  annualPropertyManagement :: number
  annualCapEx :: number
  annualMaintenanceCosts :: number
  annualPropertyTax :: number
  annualPropertyInsurance :: number
  annualVacancyCosts :: number
  totalAnnualExpenses :: number

text \<open>The total adds the nine items, in the order of their declaration, onto zero.\<close>

definition getAnnualExpenses :: "ExpenseCalculationService \<Rightarrow> AnnualExpenses" where
  "getAnnualExpenses es =
     (let mortgagePayment = getMonthlyMortgagePayment (es_mortgageService es) * Fin 12;
          hoaDues = monthlyHoaDues (es_deal es) * Fin 12;
          utilities = getAnnualUtilities es;
          propertyManagement = getAnnualManagement es;
          capEx = getAnnualCapEx es;
          maintenanceCosts = getAnnualMaintenance es;
          propertyTax = es_purchasePrice es * (propertyTaxRate (es_deal es) / Fin 100);
          propertyInsurance = getAnnualInsurance es;
          vacancyCosts = monthlyRent (es_deal es) * Fin 12 * (vacancyRate (es_deal es) / Fin 100)
      in \<lparr> annualMortgagePayment = mortgagePayment,
           annualHoaDues = hoaDues,
           annualUtilities = utilities,
           annualPropertyManagement = propertyManagement,
           annualCapEx = capEx,
           annualMaintenanceCosts = maintenanceCosts,
           annualPropertyTax = propertyTax,
           annualPropertyInsurance = propertyInsurance,
           annualVacancyCosts = vacancyCosts,
           totalAnnualExpenses =
             foldl (\<lambda>acc v. acc + v) (Fin 0)
               [mortgagePayment, hoaDues, utilities, propertyManagement, capEx,
                maintenanceCosts, propertyTax, propertyInsurance, vacancyCosts] \<rparr>)"

section \<open>ReturnCalculationService\<close>

record ReturnCalculationService =
  rs_deal :: RealEstateDeal
  rs_purchasePrice :: number
  rs_mortgageService :: MortgageCalculationService
  rs_expenseService :: ExpenseCalculationService

text \<open>The mean of an array; of the empty array it is \<open>0 / 0\<close>.\<close>

definition getArrAvg :: "number list \<Rightarrow> number" where
  "getArrAvg arr = foldl (\<lambda>acc v. acc + v) (Fin 0) arr / Fin (real (length arr))"

subsection \<open>Internal rate of return\<close>

definition maxIterations :: nat where "maxIterations = 1000"
definition tolerance :: number where "tolerance = Fin (1 / 10 ^ 6)"

text \<open>The net present value of a series at the rate \<open>mid\<close>.\<close>

definition npv_at :: "number list \<Rightarrow> number \<Rightarrow> number" where
  "npv_at cashflows mid =
     foldl (\<lambda>acc (cashflow, index). acc + cashflow / pow (Fin 1 + mid) (Fin (real index)))
       (Fin 0) (zip cashflows [0..<length cashflows])"

text \<open>
  The loop of \<open>calculateIRR\<close> from iteration \<open>i\<close> on, with the bracket \<open>[low, high]\<close>;
  leaving the loop is the \<open>throw\<close>.
\<close>

function irr_loop :: "number list \<Rightarrow> nat \<Rightarrow> number \<Rightarrow> number \<Rightarrow> string + number" where
  "irr_loop cashflows i low high =
     (if i < maxIterations then
        (let mid = (low + high) / Fin 2;
             npv = npv_at cashflows mid
         in if \<bar>npv\<bar> < tolerance then Inr mid
            else if npv < Fin 0 then irr_loop cashflows (i + 1) low mid
            else irr_loop cashflows (i + 1) mid high)
      else Inl ''IRR calculation did not converge'')"
  by pat_completeness auto
termination
  by (relation "measure (\<lambda>(cashflows, i, low, high). maxIterations - i)") auto

definition calculateIRR :: "number list \<Rightarrow> string + number" where
  "calculateIRR cashflows = irr_loop cashflows 0 (Fin 0) (Fin 1)"

subsection \<open>The yearly projection\<close>

record YearMetrics =
  annualRent :: number
  cashFlow :: number
  principalPaid :: number
  appreciation :: number
  remainingBalance :: number
  totalPrincipalPaid :: number
  totalAppreciation :: number

definition getInitialMetrics :: "ReturnCalculationService \<Rightarrow> YearMetrics" where
  "getInitialMetrics rs =
     \<lparr> annualRent = monthlyRent (rs_deal rs) * Fin 12,
       cashFlow = Fin 0,
       principalPaid = Fin 0,
       appreciation = Fin 0,
       remainingBalance = getLoanAmount (rs_mortgageService rs),
       totalPrincipalPaid = Fin 0,
       totalAppreciation = Fin 0 \<rparr>"

definition calculatePrincipalReduction :: "ReturnCalculationService \<Rightarrow> number \<Rightarrow> number" where
  "calculatePrincipalReduction rs remainingLoanBalance =
     (let annualInterestPayment =
            remainingLoanBalance * (annualMortgageInterestRate (rs_deal rs) / Fin 100)
      in getMonthlyMortgagePayment (rs_mortgageService rs) * Fin 12 - annualInterestPayment)"

text \<open>\<open>for (year = 1; year <= appreciationYear; year++) newRent *= rentIncreaseRate\<close>\<close>

fun rent_loop :: "nat \<Rightarrow> number \<Rightarrow> number \<Rightarrow> number" where
  "rent_loop 0 rentIncreaseRate newRent = newRent"
| "rent_loop (Suc k) rentIncreaseRate newRent =
     rent_loop k rentIncreaseRate (newRent * rentIncreaseRate)"

text \<open>The loop of the single-unit branch, on the pair \<open>(prevValue, currValue)\<close>.\<close>

fun value_loop :: "nat \<Rightarrow> number \<times> number \<Rightarrow> number \<times> number" where
  "value_loop 0 (prevValue, currValue) = (prevValue, currValue)"
| "value_loop (Suc k) (prevValue, currValue) =
     value_loop k (currValue, currValue * (Fin 1 + APPRECIATION_RATES_SFH))"

definition calculateAppreciation :: "ReturnCalculationService \<Rightarrow> nat \<Rightarrow> number" where
  "calculateAppreciation rs appreciationYear =
     (if appreciationYear < 1 then Fin 0
      else if Fin 1 < unitCount (rs_deal rs) then
        (let rentIncreaseRate = Fin 1 + APPRECIATION_RATES_RENT;
             newRent = rent_loop appreciationYear rentIncreaseRate (monthlyRent (rs_deal rs));
             prevRent = newRent / rentIncreaseRate;
             prevValue = (prevRent * rs_purchasePrice rs) / monthlyRent (rs_deal rs)
         in (newRent * prevValue) / prevRent - prevValue)
      else
        (let (prevValue, currValue) =
               value_loop appreciationYear (rs_purchasePrice rs, rs_purchasePrice rs)
         in currValue - prevValue))"

definition calculateYearlyMetrics ::
    "ReturnCalculationService \<Rightarrow> nat \<Rightarrow> YearMetrics \<Rightarrow> YearMetrics" where
  "calculateYearlyMetrics rs year prevMetrics =
     (let modifiedDeal = (rs_deal rs)\<lparr> monthlyRent := annualRent prevMetrics / Fin 12 \<rparr>;
          expenseService =
            \<lparr> es_deal = modifiedDeal,
              es_purchasePrice = rs_purchasePrice rs,
              es_mortgageService = rs_mortgageService rs \<rparr>;
          cashFlow' = annualRent prevMetrics - totalAnnualExpenses (getAnnualExpenses expenseService);
          annualRent' = annualRent prevMetrics * (Fin 1 + APPRECIATION_RATES_RENT);
          principalPaid' = calculatePrincipalReduction rs (remainingBalance prevMetrics);
          appreciation' = calculateAppreciation rs year
      in \<lparr> annualRent = annualRent',
           cashFlow = cashFlow',
           principalPaid = principalPaid',
           appreciation = appreciation',
           remainingBalance = remainingBalance prevMetrics - principalPaid',
           totalPrincipalPaid = totalPrincipalPaid prevMetrics + principalPaid',
           totalAppreciation = totalAppreciation prevMetrics + appreciation' \<rparr>)"

definition getInitialInvestment :: "ReturnCalculationService \<Rightarrow> number" where
  "getInitialInvestment rs =
     getClosingCosts (rs_expenseService rs) + getDownPayment (rs_mortgageService rs)"

subsection \<open>Cashflows and returns over the horizon\<close>

record Cashflows =
  cashflows :: "number list"
  trueCashflows :: "number list"
  avgCashflow :: number

text \<open>
  The loop of \<open>getCashflows\<close> from \<open>year\<close> on; its state is the metrics of the year
  before, the series so far and the gained equity.
\<close>

function cashflows_loop ::
    "ReturnCalculationService \<Rightarrow> nat \<Rightarrow> nat \<Rightarrow> YearMetrics \<Rightarrow> number list \<Rightarrow> number
      \<Rightarrow> YearMetrics \<times> number list \<times> number" where
  "cashflows_loop rs year years metrics cfs gainedEquity =
     (if year \<le> years then
        (let metrics' = calculateYearlyMetrics rs year metrics
         in cashflows_loop rs (year + 1) years metrics' (cfs @ [cashFlow metrics'])
              (totalPrincipalPaid metrics' + totalAppreciation metrics'))
      else (metrics, cfs, gainedEquity))"
  by pat_completeness auto
termination
  by (relation "measure (\<lambda>(rs, year, years, metrics, cfs, gainedEquity). years + 1 - year)") auto

text \<open>
  \<open>cashflows[years] += gainedEquity\<close> writes inside the array: the loop has pushed
  \<open>years\<close> entries behind the first.
\<close>

definition getCashflows :: "ReturnCalculationService \<Rightarrow> Cashflows" where
  "getCashflows rs =
     (let years = INVESTMENT_YEAR_TIME_HORIZON;
          (metrics, cfs, gainedEquity) =
            cashflows_loop rs 1 years (getInitialMetrics rs) [- getInitialInvestment rs] (Fin 0);
          trueCfs = drop 1 cfs;
          cfs' = cfs[years := cfs ! years + gainedEquity]
      in \<lparr> cashflows = cfs', trueCashflows = trueCfs, avgCashflow = getArrAvg trueCfs \<rparr>)"

record Returns =
  yields :: "number list"
  amounts :: "number list"
  avgYield :: number
  avgAmount :: number

function returns_loop ::
    "ReturnCalculationService \<Rightarrow> number \<Rightarrow> nat \<Rightarrow> nat \<Rightarrow> YearMetrics \<Rightarrow> number list \<Rightarrow> number list
      \<Rightarrow> YearMetrics \<times> number list \<times> number list" where
  "returns_loop rs initialInvestment year years metrics ys as =
     (if year \<le> years then
        (let metrics' = calculateYearlyMetrics rs year metrics;
             annualReturn = cashFlow metrics' + principalPaid metrics' + appreciation metrics'
         in returns_loop rs initialInvestment (year + 1) years metrics'
              (ys @ [annualReturn / initialInvestment]) (as @ [annualReturn]))
      else (metrics, ys, as))"
  by pat_completeness auto
termination
  by (relation "measure (\<lambda>(rs, inv, year, years, metrics, ys, as). years + 1 - year)") auto

definition getReturns :: "ReturnCalculationService \<Rightarrow> Returns" where
  "getReturns rs =
     (let years = INVESTMENT_YEAR_TIME_HORIZON;
          initialInvestment = getInitialInvestment rs;
          (metrics, ys, as) =
            returns_loop rs initialInvestment 1 years (getInitialMetrics rs) [] []
      in \<lparr> yields = ys, amounts = as, avgYield = getArrAvg ys, avgAmount = getArrAvg as \<rparr>)"

definition getAvgCOCROI :: "ReturnCalculationService \<Rightarrow> number" where
  "getAvgCOCROI rs = avgCashflow (getCashflows rs) / getInitialInvestment rs"

text \<open>
  \<open>getIRR\<close> catches what \<open>calculateIRR\<close> throws, and its own error for a result that is
  \<open>NaN\<close>, and returns 0 then.
\<close>

definition getIRR :: "ReturnCalculationService \<Rightarrow> number" where
  "getIRR rs =
     (case calculateIRR (cashflows (getCashflows rs)) of
        Inl err \<Rightarrow> Fin 0
      | Inr irr \<Rightarrow> if irr = NaN then Fin 0 else irr)"

section \<open>RealEstateDealAnalyser\<close>

text \<open>
  The analyser: its input, the current purchase price and the three services that
  compute. The formatting service renders the report and takes no part in any result.
\<close>

record RealEstateDealAnalyser =
  input :: RealEstateDeal
  purchasePrice :: number
  mortgageService :: MortgageCalculationService
  expenseService :: ExpenseCalculationService
  returnService :: ReturnCalculationService

definition initializeServices :: "RealEstateDealAnalyser \<Rightarrow> RealEstateDealAnalyser" where
  "initializeServices a =
     (let ms = \<lparr> ms_deal = input a, ms_purchasePrice = purchasePrice a \<rparr>;
          es = \<lparr> es_deal = input a, es_purchasePrice = purchasePrice a,
                 es_mortgageService = ms \<rparr>;
          rs = \<lparr> rs_deal = input a, rs_purchasePrice = purchasePrice a,
                 rs_mortgageService = ms, rs_expenseService = es \<rparr>
      in a\<lparr> mortgageService := ms, expenseService := es, returnService := rs \<rparr>)"

text \<open>
  The three services of a deal at a price, as \<open>initializeServices\<close> builds them, and the
  analyser that holds them.
\<close>

definition mortgageServiceAt :: "RealEstateDeal \<Rightarrow> number \<Rightarrow> MortgageCalculationService" where
  "mortgageServiceAt d p = \<lparr> ms_deal = d, ms_purchasePrice = p \<rparr>"

definition expenseServiceAt :: "RealEstateDeal \<Rightarrow> number \<Rightarrow> ExpenseCalculationService" where
  "expenseServiceAt d p =
     \<lparr> es_deal = d, es_purchasePrice = p, es_mortgageService = mortgageServiceAt d p \<rparr>"

definition returnServiceAt :: "RealEstateDeal \<Rightarrow> number \<Rightarrow> ReturnCalculationService" where
  "returnServiceAt d p =
     \<lparr> rs_deal = d, rs_purchasePrice = p, rs_mortgageService = mortgageServiceAt d p,
       rs_expenseService = expenseServiceAt d p \<rparr>"

definition analyserAt :: "RealEstateDeal \<Rightarrow> number \<Rightarrow> RealEstateDealAnalyser" where
  "analyserAt d p =
     \<lparr> input = d, purchasePrice = p, mortgageService = mortgageServiceAt d p,
       expenseService = expenseServiceAt d p, returnService = returnServiceAt d p \<rparr>"

text \<open>The constructor: the purchase price starts at the sale price.\<close>

definition newAnalyser :: "RealEstateDeal \<Rightarrow> RealEstateDealAnalyser" where
  "newAnalyser d = analyserAt d (salePrice d)"

text \<open>The verdicts \<open>'max'\<close>, \<open>'good'\<close> and \<open>'bad'\<close>.\<close>

datatype DealCriteria = Max | Good | Bad

definition minimumCashflow :: "RealEstateDeal \<Rightarrow> number" where
  "minimumCashflow d = MINIMUM_MONTHLY_CASHFLOW_PER_DOOR * unitCount d * Fin 12"

definition checkDealCriteria :: "RealEstateDealAnalyser \<Rightarrow> DealCriteria" where
  "checkDealCriteria a =
     (let avgYield' = avgYield (getReturns (returnService a));
          avgCashflow' = avgCashflow (getCashflows (returnService a));
          avgCOCROI = getAvgCOCROI (returnService a);
          minimumROI = MINIMUM_ROI;
          minimumCashflow' = minimumCashflow (input a);
          minimumCOCROI = MINIMUM_COC_ROI
      in if minimumROI \<le> avgYield' \<and> minimumCashflow' \<le> avgCashflow' \<and> minimumCOCROI \<le> avgCOCROI
         then (if strict_eq (floor_number avgCashflow') minimumCashflow' then Max else Good)
         else Bad)"

text \<open>Setting the purchase price and initialising the services again.\<close>

definition setPurchasePrice :: "RealEstateDealAnalyser \<Rightarrow> number \<Rightarrow> RealEstateDealAnalyser" where
  "setPurchasePrice a p = initializeServices (a\<lparr> purchasePrice := p \<rparr>)"

text \<open>
  The first loop of \<open>adjustToMaxPurchasePrice\<close> doubles the price while the verdict is
  not \<open>'bad'\<close>; nothing bounds it, so not leaving the loop is the value \<open>None\<close>.
\<close>

partial_function (option) double_loop :: "RealEstateDealAnalyser \<Rightarrow> RealEstateDealAnalyser option" where
  "double_loop a =
     (if checkDealCriteria a \<noteq> Bad
      then double_loop (setPurchasePrice a (purchasePrice a * Fin 2))
      else Some a)"

text \<open>
  The second loop, on the analyser and the bounds \<open>left\<close> and \<open>right\<close>; it returns the
  analyser and the bound \<open>right\<close> it leaves with. A verdict \<open>'max'\<close> leaves the loop at
  once, \<open>right\<close> unchanged.
\<close>

partial_function (option) search_loop ::
    "RealEstateDealAnalyser \<Rightarrow> number \<Rightarrow> number \<Rightarrow> (RealEstateDealAnalyser \<times> number) option" where
  "search_loop a left right =
     (if left \<le> right then
        (let middle = floor_number ((left + right) / Fin 2);
             a' = setPurchasePrice a middle;
             dealAnalysisResult = checkDealCriteria a'
         in if dealAnalysisResult = Bad then search_loop a' left (middle - Fin 1)
            else if dealAnalysisResult = Max then Some (a', right)
            else search_loop a' (middle + Fin 1) right)
      else Some (a, right))"

definition adjustToMaxPurchasePrice :: "RealEstateDealAnalyser \<Rightarrow> RealEstateDealAnalyser option" where
  "adjustToMaxPurchasePrice a =
     (case double_loop (setPurchasePrice a (Fin 1)) of
        None \<Rightarrow> None
      | Some a1 \<Rightarrow>
          (case search_loop a1 (Fin 0) (purchasePrice a1) of
             None \<Rightarrow> None
           | Some (a2, right) \<Rightarrow> Some (setPurchasePrice a2 right)))"

section \<open>The projection chain and the bisection brackets\<close>

text \<open>
  The metrics after \<open>k\<close> years: the value of the variable \<open>metrics\<close> of the loops of
  \<open>getCashflows\<close> and \<open>getReturns\<close> once year \<open>k\<close> is done.
\<close>

primrec yearMetrics :: "ReturnCalculationService \<Rightarrow> nat \<Rightarrow> YearMetrics" where
  "yearMetrics rs 0 = getInitialMetrics rs"
| "yearMetrics rs (Suc k) = calculateYearlyMetrics rs (Suc k) (yearMetrics rs k)"

text \<open>
  Bisection as the specification words it: the bracket after \<open>k\<close> halvings of \<open>[0, 1]\<close>,
  and its midpoint.
\<close>

primrec bracket :: "number list \<Rightarrow> nat \<Rightarrow> number \<times> number" where
  "bracket cfs 0 = (Fin 0, Fin 1)"
| "bracket cfs (Suc k) =
     (let (low, high) = bracket cfs k;
          mid = (low + high) / Fin 2
      in if npv_at cfs mid < Fin 0 then (low, mid) else (mid, high))"

definition midpoint :: "number list \<Rightarrow> nat \<Rightarrow> number" where
  "midpoint cfs k = (let (low, high) = bracket cfs k in (low + high) / Fin 2)"

definition converged :: "number list \<Rightarrow> nat \<Rightarrow> bool" where
  "converged cfs k = (\<bar>npv_at cfs (midpoint cfs k)\<bar> < tolerance)"

section \<open>Example deals\<close>

text \<open>The deal of the usage example.\<close>

definition exampleDeal :: RealEstateDeal where
  "exampleDeal =
     \<lparr> salePrice = Fin 372000, downpaymentPercentage = Fin 20,
       annualMortgageInterestRate = Fin 4.92, mortgageAmortization = Fin 25,
       propertyTaxRate = Fin 1, monthlyHoaDues = Fin 0, vacancyRate = Fin 2.6,
       monthlyRent = Fin 4400, landlordPaidUtilities = True,
       needsPropertyManagement = False, unitCount = Fin 2, newConstruction = False,
       closingEquity = None \<rparr>"

text \<open>The same deal with an interest-free mortgage.\<close>

definition zeroRateDeal :: RealEstateDeal where
  "zeroRateDeal = exampleDeal\<lparr> annualMortgageInterestRate := Fin 0 \<rparr>"


text \<open>The example deal bought without a loan.\<close>

definition cashDeal :: RealEstateDeal where
  "cashDeal = exampleDeal\<lparr> downpaymentPercentage := Fin 100 \<rparr>"

text \<open>
  A single unit bought without a loan, let for 97.50 a month, the tenant paying the
  utilities: at the price 1000 its average cashflow is just above the threshold.
\<close>

definition smallDeal :: RealEstateDeal where
  "smallDeal =
     \<lparr> salePrice = Fin 1000, downpaymentPercentage = Fin 100,
       annualMortgageInterestRate = Fin 4.92, mortgageAmortization = Fin 25,
       propertyTaxRate = Fin 1, monthlyHoaDues = Fin 0, vacancyRate = Fin 0,
       monthlyRent = Fin 97.5, landlordPaidUtilities = False,
       needsPropertyManagement = False, unitCount = Fin 1, newConstruction = False,
       closingEquity = None \<rparr>"


section \<open>Ordinary and admissible deals\<close>

text \<open>
  A deal is ordinary when its terms are finite, its down-payment percentage lies in
  \<open>[0, 100]\<close>, its interest rate, amortization term and monthly rent are positive, its
  tax rate is not negative and it has no closing equity.
\<close>

definition ordinary :: "RealEstateDeal \<Rightarrow> bool" where
  "ordinary d \<longleftrightarrow>
     Fin 0 \<le> downpaymentPercentage d \<and> downpaymentPercentage d \<le> Fin 100 \<and>
     Fin 0 < annualMortgageInterestRate d \<and> is_finite (annualMortgageInterestRate d) \<and>
     Fin 0 < mortgageAmortization d \<and> is_finite (mortgageAmortization d) \<and>
     Fin 0 \<le> propertyTaxRate d \<and> is_finite (propertyTaxRate d) \<and>
     is_finite (monthlyHoaDues d) \<and> is_finite (vacancyRate d) \<and>
     Fin 0 < monthlyRent d \<and> is_finite (monthlyRent d) \<and>
     is_finite (unitCount d) \<and> closingEquity d = None"



section \<open>Arithmetic of numbers\<close>

lemma plus_NaN_right [simp]: "a + NaN = NaN"
  by (cases a) simp_all

lemma times_NaN_right [simp]: "a * NaN = NaN"
  by (cases a) simp_all

lemma divide_NaN_right [simp]: "a / NaN = NaN"
  by (cases a) simp_all

lemma minus_NaN [simp]: "a - NaN = NaN" "NaN - a = NaN"
  by (simp_all add: minus_number_def)

lemma minus_Fin [simp]: "Fin a - Fin b = Fin (a - b)"
  by (simp add: minus_number_def)

lemma not_le_NaN [simp]: "\<not> a \<le> NaN" "\<not> a < NaN"
  by (cases a; simp)+

lemma less_not_ge: "a < b \<Longrightarrow> \<not> b \<le> (a::number)"
  by (cases a; cases b) simp_all

section \<open>The mortgage payment\<close>

text \<open>
  With a rate of zero the level-payment quotient is zero by zero, whatever the loan and
  the term are.
\<close>

lemma times_zero_cases: "a * Fin 0 = Fin 0 \<or> a * Fin 0 = NaN"
  by (cases a) (simp_all add: inf_of_def)

lemma pow_one_cases: "pow (Fin 1) e = Fin 1 \<or> pow (Fin 1) e = NaN"
  by (cases e) (simp_all add: fin_pow_def)

lemma zero_rate_quotient: "(a * Fin 0) / (Fin 1 - pow (Fin 1) e) = NaN"
  using times_zero_cases [of a] pow_one_cases [of e]
  by (auto simp: inf_of_def)

lemma zero_rate_payment:
  assumes "annualMortgageInterestRate (ms_deal ms) = Fin 0"
  shows "getMonthlyMortgagePayment ms = NaN"
  using assms by (simp add: getMonthlyMortgagePayment_def Let_def zero_rate_quotient)

text \<open>
  Claim C6, as amended. For every deal whose annual interest rate is 0, whatever its
  amortization term, and for every purchase price, \<open>getMonthlyMortgagePayment\<close> has no
  branch for the zero rate: it performs the level-payment division, whose numerator and
  denominator are both zero, and returns \<open>NaN\<close>.
\<close>

theorem zero_rate_payment_is_NaN:
  "annualMortgageInterestRate d = Fin 0 \<Longrightarrow>
     getMonthlyMortgagePayment (mortgageServiceAt d p) = NaN"
  by (rule zero_rate_payment) (simp add: mortgageServiceAt_def)

theorem zero_rate_payment_is_NaN_witness:
  "annualMortgageInterestRate zeroRateDeal = Fin 0 \<and>
   getMonthlyMortgagePayment (mortgageServiceAt zeroRateDeal (Fin 372000)) = NaN"
  using zero_rate_payment_is_NaN [of zeroRateDeal "Fin 372000"]
  by (simp add: zeroRateDeal_def)

text \<open>
  Claim C6 as the specification states it fails: the interest-free example deal has the
  term \<open>n = 300 > 0\<close>, and at the price 372000 the guarded formula
  \<open>loanAmount / n + PMI\<close> is 992, which is not what the function returns.
\<close>

theorem zero_rate_guard_counterexample:
  "annualMortgageInterestRate zeroRateDeal = Fin 0 \<and>
   Fin 0 < mortgageAmortization zeroRateDeal * Fin 12 \<and>
   getLoanAmount (mortgageServiceAt zeroRateDeal (Fin 372000)) /
       (mortgageAmortization zeroRateDeal * Fin 12) +
     monthlyPMI (mortgageServiceAt zeroRateDeal (Fin 372000)) = Fin 992 \<and>
   getMonthlyMortgagePayment (mortgageServiceAt zeroRateDeal (Fin 372000)) \<noteq> Fin 992"
proof -
  have "getMonthlyMortgagePayment (mortgageServiceAt zeroRateDeal (Fin 372000)) = NaN"
    by (rule zero_rate_payment) (simp add: mortgageServiceAt_def zeroRateDeal_def)
  then show ?thesis
    by (simp add: zeroRateDeal_def exampleDeal_def mortgageServiceAt_def getLoanAmount_def
        getDownPayment_def monthlyPMI_def)
qed

text \<open>
  Claim C8. The monthly payment is the constant \<open>PMI\<close> plus the level payment, and for
  every purchase price (non-negative or not) that constant is exactly 0 when the
  down-payment percentage is at least 20, and exactly \<open>purchasePrice * PMI_RATE / 12\<close>,
  with \<open>PMI_RATE = 0.0098\<close>, when it is below 20.
\<close>

theorem pmi_contribution:
  "getMonthlyMortgagePayment (mortgageServiceAt d p) =
     monthlyPMI (mortgageServiceAt d p) +
     (getLoanAmount (mortgageServiceAt d p) * (annualMortgageInterestRate d / Fin 100 / Fin 12)) /
       (Fin 1 - pow (Fin 1 + annualMortgageInterestRate d / Fin 100 / Fin 12)
                  (- (mortgageAmortization d * Fin 12)))
   \<and> (Fin 20 \<le> downpaymentPercentage d \<longrightarrow> monthlyPMI (mortgageServiceAt d p) = Fin 0)
   \<and> (downpaymentPercentage d < Fin 20 \<longrightarrow>
        monthlyPMI (mortgageServiceAt d p) = p * Fin 0.0098 / Fin 12)"
  by (simp add: getMonthlyMortgagePayment_def monthlyPMI_def mortgageServiceAt_def
      PMI_RATE_def less_not_ge Let_def)

theorem pmi_contribution_witness:
  "Fin 20 \<le> downpaymentPercentage exampleDeal \<and>
   monthlyPMI (mortgageServiceAt exampleDeal (Fin 372000)) = Fin 0 \<and>
   downpaymentPercentage (exampleDeal\<lparr> downpaymentPercentage := Fin 10 \<rparr>) < Fin 20 \<and>
   monthlyPMI (mortgageServiceAt (exampleDeal\<lparr> downpaymentPercentage := Fin 10 \<rparr>) (Fin 372000))
     = Fin 372000 * Fin 0.0098 / Fin 12"
  using pmi_contribution [of exampleDeal "Fin 372000"]
    pmi_contribution [of "exampleDeal\<lparr> downpaymentPercentage := Fin 10 \<rparr>" "Fin 372000"]
  by (simp add: exampleDeal_def)

section \<open>Internal rate of return\<close>

lemma irr_example: "calculateIRR [Fin (- 1000), Fin 1100] = Inr (Fin (53687091 / 536870912))"
  by (simp add: calculateIRR_def maxIterations_def tolerance_def npv_at_def fin_pow_def
      is_int_def upt_rec)

text \<open>
  Claim C9. On the series \<open>[-1000, 1100]\<close> the computation converges, at the 29th
  midpoint, and the rate it returns is within \<open>1e-4\<close> of \<open>0.10\<close>.
\<close>

theorem irr_round_trip:
  "calculateIRR [Fin (- 1000), Fin 1100] = Inr (Fin (53687091 / 536870912)) \<and>
   \<bar>53687091 / 536870912 - 1 / 10\<bar> < (1 / 10 ^ 4 :: real)"
  using irr_example by simp

lemma bracket_bounds:
  "\<exists>l h. bracket cfs k = (Fin l, Fin h) \<and> 0 \<le> l \<and> l \<le> h \<and> h \<le> 1"
proof (induction k)
  case 0
  show ?case by simp
next
  case (Suc k)
  then obtain l h where b: "bracket cfs k = (Fin l, Fin h)" "0 \<le> l" "l \<le> h" "h \<le> 1"
    by blast
  have mid: "0 \<le> (l + h) / 2" "l \<le> (l + h) / 2" "(l + h) / 2 \<le> h" "(l + h) / 2 \<le> 1"
    using b(2-4) by simp_all
  show ?case
  proof (cases "npv_at cfs (Fin ((l + h) / 2)) < Fin 0")
    case True
    then have "bracket cfs (Suc k) = (Fin l, Fin ((l + h) / 2))"
      using b(1) by (simp add: Let_def)
    then show ?thesis using b(2) mid by blast
  next
    case False
    then have "bracket cfs (Suc k) = (Fin ((l + h) / 2), Fin h)"
      using b(1) by (simp add: Let_def)
    then show ?thesis using b(4) mid by blast
  qed
qed

lemma midpoint_bounds: "\<exists>r. midpoint cfs k = Fin r \<and> 0 \<le> r \<and> r \<le> 1"
proof -
  obtain l h where b: "bracket cfs k = (Fin l, Fin h)" "0 \<le> l" "l \<le> h" "h \<le> 1"
    using bracket_bounds by blast
  have "0 \<le> (l + h) / 2" "(l + h) / 2 \<le> 1"
    using b(2-4) by simp_all
  moreover have "midpoint cfs k = Fin ((l + h) / 2)"
    using b(1) by (simp add: midpoint_def)
  ultimately show ?thesis by blast
qed

lemma irr_loop_bracket:
  "bracket cfs i = (low, high) \<Longrightarrow> (\<forall>j<i. \<not> converged cfs j) \<Longrightarrow>
   (case irr_loop cfs i low high of
      Inr r \<Rightarrow> \<exists>k<maxIterations. r = midpoint cfs k \<and> converged cfs k \<and> (\<forall>j<k. \<not> converged cfs j)
    | Inl e \<Rightarrow> e = ''IRR calculation did not converge'' \<and> (\<forall>k<maxIterations. \<not> converged cfs k))"
proof (induction cfs i low high rule: irr_loop.induct)
  case (1 cfs i low high)
  show ?case
  proof (cases "i < maxIterations")
    case False
    then show ?thesis using "1.prems"(2) by (subst irr_loop.simps) auto
  next
    case True
    have mid: "midpoint cfs i = (low + high) / Fin 2"
      using "1.prems"(1) by (simp add: midpoint_def)
    show ?thesis
    proof (cases "converged cfs i")
      case True
      then have "irr_loop cfs i low high = Inr (midpoint cfs i)"
        using \<open>i < maxIterations\<close> mid
        by (subst irr_loop.simps) (simp add: converged_def Let_def)
      then show ?thesis using True \<open>i < maxIterations\<close> "1.prems"(2) by auto
    next
      case False
      then have nconv: "\<not> \<bar>npv_at cfs ((low + high) / Fin 2)\<bar> < tolerance"
        using mid by (simp add: converged_def)
      have all: "\<forall>j<i + 1. \<not> converged cfs j"
        using "1.prems"(2) False by (auto simp: less_Suc_eq)
      show ?thesis
      proof (cases "npv_at cfs ((low + high) / Fin 2) < Fin 0")
        case True
        have "bracket cfs (i + 1) = (low, (low + high) / Fin 2)"
          using "1.prems"(1) True by (simp add: Let_def)
        from "1.IH"(1) [OF \<open>i < maxIterations\<close> refl refl nconv True this all]
        show ?thesis
          using \<open>i < maxIterations\<close> nconv True
          by (subst irr_loop.simps) (simp add: Let_def)
      next
        case neg: False
        have "bracket cfs (i + 1) = ((low + high) / Fin 2, high)"
          using "1.prems"(1) neg by (simp add: Let_def)
        from "1.IH"(2) [OF \<open>i < maxIterations\<close> refl refl nconv neg this all]
        show ?thesis
          using \<open>i < maxIterations\<close> nconv neg
          by (subst irr_loop.simps) (simp add: Let_def)
      qed
    qed
  qed
qed

lemma calculateIRR_Inr:
  assumes "calculateIRR cfs = Inr r"
  shows "\<exists>k<maxIterations. r = midpoint cfs k \<and> converged cfs k \<and> (\<forall>j<k. \<not> converged cfs j)"
  using irr_loop_bracket [of cfs 0 "Fin 0" "Fin 1"] assms
  by (simp add: calculateIRR_def)

lemma calculateIRR_Inl:
  assumes "calculateIRR cfs = Inl e"
  shows "e = ''IRR calculation did not converge'' \<and> (\<forall>k<maxIterations. \<not> converged cfs k)"
  using irr_loop_bracket [of cfs 0 "Fin 0" "Fin 1"] assms
  by (simp add: calculateIRR_def)

text \<open>
  Claim C4. \<open>calculateIRR\<close> is the bisection of \<open>[0, 1]\<close>: a rate it returns is the
  midpoint of the bracket after \<open>k < 1000\<close> halvings, the first midpoint whose net
  present value is within the tolerance \<open>1e-6\<close> of zero, and it lies in \<open>[0, 1]\<close>; it
  throws only when none of the 1000 midpoints converges. \<open>getIRR\<close> returns the rate when
  there is one and 0 when \<open>calculateIRR\<close> throws: no failure leaves it.
\<close>

theorem irr_bisection:
  "(\<forall>r. calculateIRR cfs = Inr r \<longrightarrow>
      (\<exists>k<1000. r = midpoint cfs k \<and> (\<forall>j<k. \<not> converged cfs j)) \<and>
      \<bar>npv_at cfs r\<bar> < Fin (1 / 10 ^ 6) \<and> Fin 0 \<le> r \<and> r \<le> Fin 1)
   \<and> (\<forall>e. calculateIRR cfs = Inl e \<longrightarrow> (\<forall>k<1000. \<not> converged cfs k))
   \<and> (\<forall>e. calculateIRR (cashflows (getCashflows rs)) = Inl e \<longrightarrow> getIRR rs = Fin 0)
   \<and> (\<forall>r. calculateIRR (cashflows (getCashflows rs)) = Inr r \<longrightarrow> getIRR rs = r)"
proof -
  have conv: "(\<exists>k<1000. r = midpoint cfs k \<and> (\<forall>j<k. \<not> converged cfs j)) \<and>
      \<bar>npv_at cfs r\<bar> < Fin (1 / 10 ^ 6) \<and> Fin 0 \<le> r \<and> r \<le> Fin 1"
    if r: "calculateIRR cfs = Inr r" for r
  proof -
    from calculateIRR_Inr [OF r] obtain k where k: "k < maxIterations" "r = midpoint cfs k"
      "converged cfs k" "\<forall>j<k. \<not> converged cfs j"
      by blast
    have "\<exists>k<1000. r = midpoint cfs k \<and> (\<forall>j<k. \<not> converged cfs j)"
      using k by (auto simp: maxIterations_def)
    moreover have "\<bar>npv_at cfs r\<bar> < Fin (1 / 10 ^ 6)"
      using k(2,3) by (simp add: converged_def tolerance_def)
    moreover have "Fin 0 \<le> r \<and> r \<le> Fin 1"
      using midpoint_bounds [of cfs k] k(2) by auto
    ultimately show ?thesis by blast
  qed
  have nonconv: "\<forall>k<1000. \<not> converged cfs k" if "calculateIRR cfs = Inl e" for e
    using calculateIRR_Inl [OF that] by (simp add: maxIterations_def)
  have caught: "getIRR rs = Fin 0" if "calculateIRR (cashflows (getCashflows rs)) = Inl e" for e
    using that by (simp add: getIRR_def)
  have passed: "getIRR rs = r" if r: "calculateIRR (cashflows (getCashflows rs)) = Inr r" for r
  proof -
    from calculateIRR_Inr [OF r] obtain k where "r = midpoint (cashflows (getCashflows rs)) k"
      by blast
    then have "r \<noteq> NaN" using midpoint_bounds [of "cashflows (getCashflows rs)" k] by auto
    then show ?thesis using r by (simp add: getIRR_def)
  qed
  show ?thesis using conv nonconv caught passed by blast
qed

lemma irr_loop_NaN:
  "(\<And>mid. npv_at cfs mid = NaN) \<Longrightarrow>
   irr_loop cfs i low high = Inl ''IRR calculation did not converge''"
proof (induction cfs i low high rule: irr_loop.induct)
  case (1 cfs i low high)
  show ?case
  proof (cases "i < maxIterations")
    case True
    then show ?thesis
      using "1.IH"(2) [OF True refl refl] "1.prems"
      by (subst irr_loop.simps) (simp add: Let_def tolerance_def)
  next
    case False
    then show ?thesis by (subst irr_loop.simps) simp
  qed
qed

section \<open>The loops over the horizon\<close>

declare cashflows_loop.simps [simp del] returns_loop.simps [simp del] irr_loop.simps [simp del]

text \<open>
  Entered at year \<open>j + 1\<close> with the metrics of year \<open>j\<close>, the loop of \<open>getCashflows\<close>
  pushes the cashflows of the years \<open>j + 1\<close> to \<open>years\<close> of the chain and leaves with the
  metrics of the last year and its gained equity.
\<close>

lemma cashflows_loop_chain:
  "j \<le> years \<Longrightarrow>
   cashflows_loop rs (Suc j) years (yearMetrics rs j) cfs g =
     (yearMetrics rs years,
      cfs @ map (\<lambda>k. cashFlow (yearMetrics rs k)) [Suc j..<Suc years],
      if j = years then g
      else totalPrincipalPaid (yearMetrics rs years) + totalAppreciation (yearMetrics rs years))"
proof (induction "years - j" arbitrary: j cfs g)
  case 0
  then show ?case by (simp add: cashflows_loop.simps [of rs "Suc j"])
next
  case (Suc n)
  then have step: "Suc j \<le> years" "n = years - Suc j" by simp_all
  have "cashflows_loop rs (Suc j) years (yearMetrics rs j) cfs g =
        cashflows_loop rs (Suc (Suc j)) years (yearMetrics rs (Suc j))
          (cfs @ [cashFlow (yearMetrics rs (Suc j))])
          (totalPrincipalPaid (yearMetrics rs (Suc j)) + totalAppreciation (yearMetrics rs (Suc j)))"
    using step(1) by (subst cashflows_loop.simps) (simp add: Let_def)
  also have "\<dots> = (yearMetrics rs years,
      (cfs @ [cashFlow (yearMetrics rs (Suc j))]) @
        map (\<lambda>k. cashFlow (yearMetrics rs k)) [Suc (Suc j)..<Suc years],
      if Suc j = years
      then totalPrincipalPaid (yearMetrics rs (Suc j)) + totalAppreciation (yearMetrics rs (Suc j))
      else totalPrincipalPaid (yearMetrics rs years) + totalAppreciation (yearMetrics rs years))"
    using Suc.hyps(1) [OF step(2) step(1)] .
  finally show ?case
    using step(1) by (auto simp: upt_conv_Cons)
qed

lemma returns_loop_chain:
  "j \<le> years \<Longrightarrow>
   returns_loop rs ii (Suc j) years (yearMetrics rs j) ys as =
     (yearMetrics rs years,
      ys @ map (\<lambda>k. (cashFlow (yearMetrics rs k) + principalPaid (yearMetrics rs k)
                        + appreciation (yearMetrics rs k)) / ii) [Suc j..<Suc years],
      as @ map (\<lambda>k. cashFlow (yearMetrics rs k) + principalPaid (yearMetrics rs k)
                        + appreciation (yearMetrics rs k)) [Suc j..<Suc years])"
proof (induction "years - j" arbitrary: j ys as)
  case 0
  then show ?case by (simp add: returns_loop.simps [of rs ii "Suc j"])
next
  case (Suc n)
  then have step: "Suc j \<le> years" "n = years - Suc j" by simp_all
  show ?case
    using step(1) Suc.hyps(1) [OF step(2) step(1)]
    by (subst returns_loop.simps) (auto simp: Let_def upt_conv_Cons simp del: upt_Suc)
qed

lemma years_as_Suc:
  "(1::nat) = Suc 0" "(2::nat) = Suc (Suc 0)" "(3::nat) = Suc (Suc (Suc 0))"
  "(4::nat) = Suc (Suc (Suc (Suc 0)))" "(5::nat) = Suc (Suc (Suc (Suc (Suc 0))))"
  by simp_all

lemma horizon_years: "[Suc 0..<Suc 5] = [1, 2, 3, 4, 5]"
  by (simp add: upt_rec)

lemma getCashflows_chain:
  "getCashflows rs =
     \<lparr> cashflows =
         [- getInitialInvestment rs, cashFlow (yearMetrics rs 1), cashFlow (yearMetrics rs 2),
          cashFlow (yearMetrics rs 3), cashFlow (yearMetrics rs 4),
          cashFlow (yearMetrics rs 5) +
            (totalPrincipalPaid (yearMetrics rs 5) + totalAppreciation (yearMetrics rs 5))],
       trueCashflows =
         [cashFlow (yearMetrics rs 1), cashFlow (yearMetrics rs 2), cashFlow (yearMetrics rs 3),
          cashFlow (yearMetrics rs 4), cashFlow (yearMetrics rs 5)],
       avgCashflow =
         (Fin 0 + cashFlow (yearMetrics rs 1) + cashFlow (yearMetrics rs 2) +
          cashFlow (yearMetrics rs 3) + cashFlow (yearMetrics rs 4) +
          cashFlow (yearMetrics rs 5)) / Fin 5 \<rparr>"
proof -
  have loop: "cashflows_loop rs 1 5 (getInitialMetrics rs) [- getInitialInvestment rs] (Fin 0) =
      (yearMetrics rs 5,
       [- getInitialInvestment rs] @ map (\<lambda>k. cashFlow (yearMetrics rs k)) [Suc 0..<Suc 5],
       totalPrincipalPaid (yearMetrics rs 5) + totalAppreciation (yearMetrics rs 5))"
    using cashflows_loop_chain [of 0 5 rs "[- getInitialInvestment rs]" "Fin 0"] by simp
  show ?thesis
    unfolding getCashflows_def INVESTMENT_YEAR_TIME_HORIZON_def Let_def loop horizon_years
      getArrAvg_def
    by (simp add: years_as_Suc)
qed

text \<open>
  Claim C2. The series of \<open>getCashflows\<close> is the negated initial investment, then the
  cashflows of the years 1 to 5 of the chain, the gained equity (total principal paid
  plus total appreciation of year 5) added onto the last entry only; \<open>trueCashflows\<close> is
  that series without its first entry and without the gained equity; \<open>avgCashflow\<close> is
  the sum of \<open>trueCashflows\<close> divided by their number; and the initial investment is
  the closing costs plus the down payment.
\<close>

theorem cashflow_series:
  "let rs = returnServiceAt d p; m = yearMetrics rs; cf = getCashflows rs
   in cashflows cf =
        [- getInitialInvestment rs, cashFlow (m 1), cashFlow (m 2), cashFlow (m 3),
         cashFlow (m 4), cashFlow (m 5) + (totalPrincipalPaid (m 5) + totalAppreciation (m 5))]
      \<and> trueCashflows cf =
        [cashFlow (m 1), cashFlow (m 2), cashFlow (m 3), cashFlow (m 4), cashFlow (m 5)]
      \<and> avgCashflow cf =
        (Fin 0 + cashFlow (m 1) + cashFlow (m 2) + cashFlow (m 3) + cashFlow (m 4) +
         cashFlow (m 5)) / Fin 5
      \<and> getInitialInvestment rs = Fin 0.032 * p + p * (downpaymentPercentage d / Fin 100)"
  unfolding Let_def getCashflows_chain
  by (simp add: getInitialInvestment_def getClosingCosts_def getDownPayment_def
      returnServiceAt_def expenseServiceAt_def mortgageServiceAt_def CLOSING_COST_RATE_def)

text \<open>
  Claim C3. From the metrics of year \<open>k\<close> of the chain to those of year \<open>k + 1\<close>: the
  cashflow is the previous annual rent minus the total annual expenses of the deal with
  that rent, whose mortgage item is the payment of the unchanged mortgage service; the
  principal paid is \<open>monthlyPayment * 12 - remainingBalance * (annualInterestRate / 100)\<close>;
  the rent grows by \<open>RENT_APPRECIATION_RATE = 0.025\<close>; the balance falls by the principal
  paid; and the totals of principal and appreciation accumulate.
\<close>

theorem yearly_transition:
  "let rs = returnServiceAt d p;
       ms = mortgageServiceAt d p;
       prev = yearMetrics rs k;
       m = yearMetrics rs (Suc k);
       expenses = getAnnualExpenses
         \<lparr> es_deal = d\<lparr> monthlyRent := annualRent prev / Fin 12 \<rparr>,
           es_purchasePrice = p, es_mortgageService = ms \<rparr>
   in cashFlow m = annualRent prev - totalAnnualExpenses expenses
      \<and> annualMortgagePayment expenses = getMonthlyMortgagePayment ms * Fin 12
      \<and> principalPaid m =
          getMonthlyMortgagePayment ms * Fin 12 -
          remainingBalance prev * (annualMortgageInterestRate d / Fin 100)
      \<and> annualRent m = annualRent prev * (Fin 1 + Fin 0.025)
      \<and> remainingBalance m = remainingBalance prev - principalPaid m
      \<and> totalPrincipalPaid m = totalPrincipalPaid prev + principalPaid m
      \<and> totalAppreciation m = totalAppreciation prev + appreciation m"
  by (simp add: Let_def calculateYearlyMetrics_def calculatePrincipalReduction_def
      returnServiceAt_def getAnnualExpenses_def APPRECIATION_RATES_RENT_def)

section \<open>The balance of the loan\<close>

lemma is_finite_iff: "is_finite a \<longleftrightarrow> (\<exists>r. a = Fin r)"
  by (cases a) simp_all





section \<open>The classification of a price\<close>

lemma strict_eq_iff: "m \<le> c \<Longrightarrow> strict_eq (floor_number c) m \<longleftrightarrow> floor_number c = m"
  by (cases c; cases m) (simp_all add: strict_eq_def)

text \<open>
  Claim C1. At every deal and price the verdict is \<open>'good'\<close> (Acceptable) or \<open>'max'\<close>
  (ExactMinimum) if and only if the average yield is at least 0.25, the average cashflow
  at least \<open>100 * unitCount * 12\<close> and the average cash-on-cash return at least 0.05;
  when the three hold it is \<open>'max'\<close> exactly when the floor of the average cashflow
  equals that cashflow threshold and \<open>'good'\<close> otherwise; when one fails it is \<open>'bad'\<close>
  (TooLow).
\<close>

theorem classification:
  "let rs = returnServiceAt d p;
       y = avgYield (getReturns rs);
       c = avgCashflow (getCashflows rs);
       r = getAvgCOCROI rs;
       m = Fin 100 * unitCount d * Fin 12;
       v = checkDealCriteria (analyserAt d p);
       ok = (Fin 0.25 \<le> y \<and> m \<le> c \<and> Fin 0.05 \<le> r)
   in ((v = Good \<or> v = Max) \<longleftrightarrow> ok)
      \<and> (ok \<longrightarrow> (v = Max \<longleftrightarrow> floor_number c = m) \<and> (v = Good \<longleftrightarrow> floor_number c \<noteq> m))
      \<and> (\<not> ok \<longrightarrow> v = Bad)"
  by (simp add: Let_def checkDealCriteria_def analyserAt_def minimumCashflow_def
      MINIMUM_ROI_def MINIMUM_COC_ROI_def MINIMUM_MONTHLY_CASHFLOW_PER_DOOR_def strict_eq_iff)

section \<open>The rate of return of a deal without convergence\<close>

text \<open>
  The cashflows of the interest-free example deal are \<open>NaN\<close>, so is every net present
  value of its series, and the bisection never converges on it.
\<close>

lemma zero_rate_chain:
  "0 < k \<Longrightarrow> cashFlow (yearMetrics (returnServiceAt zeroRateDeal p) k) = NaN"
  using zero_rate_payment [of "mortgageServiceAt zeroRateDeal p"]
  by (cases k) (simp_all add: calculateYearlyMetrics_def Let_def getAnnualExpenses_def
      returnServiceAt_def mortgageServiceAt_def zeroRateDeal_def)

lemma zero_rate_npv:
  "npv_at (cashflows (getCashflows (returnServiceAt zeroRateDeal p))) mid = NaN"
  unfolding getCashflows_chain
  by (simp add: zero_rate_chain npv_at_def upt_rec)

lemma zero_rate_irr:
  "calculateIRR (cashflows (getCashflows (returnServiceAt zeroRateDeal p))) =
     Inl ''IRR calculation did not converge''"
  unfolding calculateIRR_def by (rule irr_loop_NaN) (rule zero_rate_npv)

section \<open>The search for the maximal price\<close>

lemma setPurchasePrice_eq: "setPurchasePrice a p = analyserAt (input a) p"
  by (simp add: setPurchasePrice_def initializeServices_def analyserAt_def Let_def
      mortgageServiceAt_def expenseServiceAt_def returnServiceAt_def)

lemma analyserAt_fields [simp]:
  "input (analyserAt d p) = d" "purchasePrice (analyserAt d p) = p"
  by (simp_all add: analyserAt_def)

lemma adjust_unsolvable:
  assumes "checkDealCriteria (analyserAt (input a) (Fin 1)) = Bad"
    and "checkDealCriteria (analyserAt (input a) (Fin 0)) = Bad"
  shows "adjustToMaxPurchasePrice a = Some (analyserAt (input a) (Fin (- 1)))"
proof -
  let ?d = "input a"
  have phase1: "double_loop (analyserAt ?d (Fin 1)) = Some (analyserAt ?d (Fin 1))"
    using assms(1) by (subst double_loop.simps) simp
  have last: "search_loop (analyserAt ?d (Fin 0)) (Fin 0) (Fin (- 1)) =
      Some (analyserAt ?d (Fin 0), Fin (- 1))"
    by (subst search_loop.simps) simp
  have phase2: "search_loop (analyserAt ?d (Fin 1)) (Fin 0) (Fin 1) =
      Some (analyserAt ?d (Fin 0), Fin (- 1))"
    using assms(2) last
    by (subst search_loop.simps) (simp add: setPurchasePrice_eq Let_def)
  show ?thesis
    by (simp add: adjustToMaxPurchasePrice_def phase1 phase2 setPurchasePrice_eq)
qed

text \<open>The average cashflow of the interest-free example deal is \<open>NaN\<close> at every price.\<close>

lemma zero_rate_bad: "checkDealCriteria (analyserAt zeroRateDeal p) = Bad"
proof -
  have "avgCashflow (getCashflows (returnServiceAt zeroRateDeal p)) = NaN"
    unfolding getCashflows_chain by (simp add: zero_rate_chain)
  then show ?thesis
    by (simp add: checkDealCriteria_def analyserAt_def Let_def)
qed

text \<open>
  Claim C5, as amended. For every deal for which no purchase price, 0 included,
  satisfies the three criteria, \<open>adjustToMaxPurchasePrice\<close> throws nothing and
  terminates: the first loop does not double, the second probes the price 0 once and
  leaves with \<open>right = -1\<close>, so the final purchase price is -1, with the verdict \<open>'bad'\<close>
  (TooLow).
\<close>

theorem unsolvable_deal:
  assumes "\<forall>p. checkDealCriteria (analyserAt d p) = Bad"
  shows "\<exists>a. adjustToMaxPurchasePrice (newAnalyser d) = Some a \<and>
             purchasePrice a = Fin (- 1) \<and> checkDealCriteria a = Bad"
  using adjust_unsolvable [of "newAnalyser d"] assms
  by (simp add: newAnalyser_def)

theorem unsolvable_deal_witness:
  "(\<forall>p. checkDealCriteria (analyserAt zeroRateDeal p) = Bad) \<and>
   (\<exists>a. adjustToMaxPurchasePrice (newAnalyser zeroRateDeal) = Some a \<and>
        purchasePrice a = Fin (- 1) \<and> checkDealCriteria a = Bad)"
  using unsolvable_deal [of zeroRateDeal] zero_rate_bad by simp

text \<open>
  Claim C5 as stated, with the sentinel price 0, fails: no price satisfies the criteria
  of the interest-free example deal, and its final purchase price is -1.
\<close>

theorem unsolvable_deal_counterexample:
  "(\<forall>p. checkDealCriteria (analyserAt zeroRateDeal p) = Bad) \<and>
   map_option purchasePrice (adjustToMaxPurchasePrice (newAnalyser zeroRateDeal)) =
     Some (Fin (- 1)) \<and>
   map_option purchasePrice (adjustToMaxPurchasePrice (newAnalyser zeroRateDeal)) \<noteq>
     Some (Fin 0)"
  using adjust_unsolvable [of "newAnalyser zeroRateDeal"] zero_rate_bad
  by (simp add: newAnalyser_def)

section \<open>The payment of an ordinary deal\<close>

text \<open>
  The discount factor \<open>(1 + r) ** -n\<close> of an ordinary deal lies strictly between 0 and
  1, so the level-payment division is by a positive number: in exact arithmetic the
  payment is a multiple of the price, and it is 0 when the down payment is the whole
  price.
\<close>

lemma finite_between: "Fin lo \<le> a \<Longrightarrow> a \<le> Fin hi \<Longrightarrow> \<exists>r. a = Fin r \<and> lo \<le> r \<and> r \<le> hi"
  by (cases a) simp_all

lemma finite_positive: "Fin 0 < a \<Longrightarrow> is_finite a \<Longrightarrow> \<exists>r. a = Fin r \<and> 0 < r"
  by (cases a) simp_all

lemma finite_nonneg: "Fin 0 \<le> a \<Longrightarrow> is_finite a \<Longrightarrow> \<exists>r. a = Fin r \<and> 0 \<le> r"
  by (cases a) simp_all

lemma ordinary_reals:
  assumes "ordinary d"
  obtains dp i y t h v R u where
    "downpaymentPercentage d = Fin dp" "0 \<le> dp" "dp \<le> 100"
    "annualMortgageInterestRate d = Fin i" "0 < i"
    "mortgageAmortization d = Fin y" "0 < y"
    "propertyTaxRate d = Fin t" "0 \<le> t"
    "monthlyHoaDues d = Fin h" "vacancyRate d = Fin v"
    "monthlyRent d = Fin R" "0 < R"
    "unitCount d = Fin u" "closingEquity d = None"
proof -
  obtain dp where "downpaymentPercentage d = Fin dp" "0 \<le> dp" "dp \<le> 100"
    using assms finite_between unfolding ordinary_def by blast
  moreover obtain i where "annualMortgageInterestRate d = Fin i" "0 < i"
    using assms finite_positive unfolding ordinary_def by blast
  moreover obtain y where "mortgageAmortization d = Fin y" "0 < y"
    using assms finite_positive unfolding ordinary_def by blast
  moreover obtain t where "propertyTaxRate d = Fin t" "0 \<le> t"
    using assms finite_nonneg unfolding ordinary_def by blast
  moreover obtain h v u where "monthlyHoaDues d = Fin h" "vacancyRate d = Fin v"
      "unitCount d = Fin u"
    using assms unfolding ordinary_def is_finite_iff by blast
  moreover obtain R where "monthlyRent d = Fin R" "0 < R"
    using assms finite_positive unfolding ordinary_def by blast
  moreover have "closingEquity d = None"
    using assms unfolding ordinary_def by blast
  ultimately show ?thesis using that by blast
qed

lemma powi_neg_bounds:
  fixes x :: real
  assumes "1 < x" "k < 0"
  shows "0 < x powi k \<and> x powi k < 1"
  using assms(1,2) power_int_strict_increasing by fastforce

lemma powr_neg_bounds:
  fixes x :: real
  assumes "1 < x" "e < 0"
  shows "0 < x powr e \<and> x powr e < 1"
  using assms(1,2) powr_less_one by auto

lemma fin_pow_discount:
  assumes "1 < x" "e < 0"
  shows "\<exists>q. fin_pow x e = Fin q \<and> 0 < q \<and> q < 1"
proof (cases "is_int e")
  case True
  then have "\<lfloor>e\<rfloor> < 0" using assms(2) by (simp add: floor_less_iff)
  then show ?thesis
    using True powi_neg_bounds [OF assms(1), of "\<lfloor>e\<rfloor>"] by (simp add: fin_pow_def)
next
  case False
  then show ?thesis
    using powr_neg_bounds [OF assms] assms(1) by (simp add: fin_pow_def)
qed

lemma pow_discount:
  assumes "0 < i" "0 < y"
  shows "\<exists>q. pow (Fin 1 + Fin i / Fin 100 / Fin 12) (- (Fin y * Fin 12)) = Fin q \<and> 0 < q \<and> q < 1"
  using fin_pow_discount [of "1 + i / 100 / 12" "- (y * 12)"] assms
  by simp

lemma payment_discounted:
  assumes "downpaymentPercentage d = Fin dp" "annualMortgageInterestRate d = Fin i"
    and "mortgageAmortization d = Fin y" "closingEquity d = None"
    and "pow (Fin 1 + Fin i / Fin 100 / Fin 12) (- (Fin y * Fin 12)) = Fin q" "q \<noteq> 1"
  shows "getMonthlyMortgagePayment (mortgageServiceAt d (Fin p)) =
         Fin ((if 20 \<le> dp then 0 else p * (49 / 5000) / 12) +
              (p - p * (dp / 100)) * (i / 100 / 12) / (1 - q))"
proof -
  have "getMonthlyMortgagePayment (mortgageServiceAt d (Fin p)) =
        monthlyPMI (mortgageServiceAt d (Fin p)) +
        (getLoanAmount (mortgageServiceAt d (Fin p)) * (Fin i / Fin 100 / Fin 12)) /
          (Fin 1 - Fin q)"
    unfolding getMonthlyMortgagePayment_def Let_def
    by (simp only: mortgageServiceAt_def MortgageCalculationService.select_convs assms)
  then show ?thesis
    using assms(6)
    by (simp add: monthlyPMI_def getLoanAmount_def getDownPayment_def mortgageServiceAt_def
        PMI_RATE_def assms(1-4))
qed



lemma getReturns_avgYield:
  "avgYield (getReturns rs) =
     (Fin 0
      + (cashFlow (yearMetrics rs 1) + principalPaid (yearMetrics rs 1)
          + appreciation (yearMetrics rs 1)) / getInitialInvestment rs
      + (cashFlow (yearMetrics rs 2) + principalPaid (yearMetrics rs 2)
          + appreciation (yearMetrics rs 2)) / getInitialInvestment rs
      + (cashFlow (yearMetrics rs 3) + principalPaid (yearMetrics rs 3)
          + appreciation (yearMetrics rs 3)) / getInitialInvestment rs
      + (cashFlow (yearMetrics rs 4) + principalPaid (yearMetrics rs 4)
          + appreciation (yearMetrics rs 4)) / getInitialInvestment rs
      + (cashFlow (yearMetrics rs 5) + principalPaid (yearMetrics rs 5)
          + appreciation (yearMetrics rs 5)) / getInitialInvestment rs) / Fin 5"
proof -
  have loop: "returns_loop rs (getInitialInvestment rs) 1 5 (getInitialMetrics rs) [] [] =
      (yearMetrics rs 5,
       [] @ map (\<lambda>k. (cashFlow (yearMetrics rs k) + principalPaid (yearMetrics rs k)
                        + appreciation (yearMetrics rs k)) / getInitialInvestment rs) [Suc 0..<Suc 5],
       [] @ map (\<lambda>k. cashFlow (yearMetrics rs k) + principalPaid (yearMetrics rs k)
                        + appreciation (yearMetrics rs k)) [Suc 0..<Suc 5])"
    using returns_loop_chain [of 0 5 rs "getInitialInvestment rs" "[]" "[]"] by simp
  show ?thesis
    unfolding getReturns_def INVESTMENT_YEAR_TIME_HORIZON_def Let_def loop horizon_years
      getArrAvg_def
    by (simp add: years_as_Suc)
qed

section \<open>The example deals, evaluated\<close>


lemma ordinary_cashDeal: "ordinary cashDeal"
  by (simp add: ordinary_def exampleDeal_def cashDeal_def)

lemma ordinary_smallDeal: "ordinary smallDeal"
  by (simp add: ordinary_def smallDeal_def)


lemma payment_without_loan:
  assumes "ordinary d" "downpaymentPercentage d = Fin 100"
  shows "getMonthlyMortgagePayment (mortgageServiceAt d (Fin p)) = Fin 0"
proof -
  from assms(1) obtain i y where d: "annualMortgageInterestRate d = Fin i" "0 < i"
    "mortgageAmortization d = Fin y" "0 < y" "closingEquity d = None"
    by (rule ordinary_reals)
  obtain q where q: "pow (Fin 1 + Fin i / Fin 100 / Fin 12) (- (Fin y * Fin 12)) = Fin q"
    "0 < q" "q < 1"
    using pow_discount [OF d(2) d(4)] by blast
  show ?thesis
    using payment_discounted [OF assms(2) d(1) d(3) d(5) q(1), of p] q(3) by simp
qed

text \<open>The definitions a concrete evaluation unfolds.\<close>

lemmas rate_defs = CLOSING_COST_RATE_def PMI_RATE_def APPRECIATION_RATES_SFH_def
  APPRECIATION_RATES_RENT_def MAINTENANCE_RATES_NEW_CONSTRUCTION_def
  MAINTENANCE_RATES_EXISTING_CONSTRUCTION_def MANAGEMENT_RATES_SINGLE_FAMILY_def
  MANAGEMENT_RATES_MULTI_FAMILY_def UNIT_UTILITY_COST_def CAPEX_RATE_def
  BASE_INSURANCE_RATE_def CONDO_INSURANCE_RATE_def MINIMUM_MONTHLY_CASHFLOW_PER_DOOR_def
  MINIMUM_ROI_def MINIMUM_COC_ROI_def

lemmas service_defs = returnServiceAt_def expenseServiceAt_def mortgageServiceAt_def

lemmas year_defs = calculateYearlyMetrics_def calculatePrincipalReduction_def
  calculateAppreciation_def getAnnualExpenses_def getAnnualUtilities_def
  getAnnualManagement_def getAnnualCapEx_def getAnnualMaintenance_def getAnnualInsurance_def
  getInitialMetrics_def getLoanAmount_def getDownPayment_def


lemma cashDeal_good:
  "avgCashflow (getCashflows (returnServiceAt cashDeal (Fin 100000))) = Fin (170254606271 / 4000000)"
  "avgYield (getReturns (returnServiceAt cashDeal (Fin 100000))) = Fin (723069053209 / 1651200000000)"
  "getInitialInvestment (returnServiceAt cashDeal (Fin 100000)) = Fin 103200"
  unfolding getCashflows_chain getReturns_avgYield years_as_Suc
  using payment_without_loan [OF ordinary_cashDeal, of "100000"]
  by (simp_all add: year_defs service_defs rate_defs Let_def exampleDeal_def cashDeal_def
      getInitialInvestment_def getClosingCosts_def)

lemma cashDeal_bad:
  "avgYield (getReturns (returnServiceAt cashDeal (Fin 372000))) = Fin (235919053903 / 2047488000000)"
  unfolding getReturns_avgYield years_as_Suc
  using payment_without_loan [OF ordinary_cashDeal, of "372000"]
  by (simp add: year_defs service_defs rate_defs Let_def exampleDeal_def cashDeal_def
      getInitialInvestment_def getClosingCosts_def)

lemma smallDeal_max:
  "avgCashflow (getCashflows (returnServiceAt smallDeal (Fin 1000))) = Fin (1536231517 / 1280000)"
  "avgYield (getReturns (returnServiceAt smallDeal (Fin 1000))) = Fin (994809162509 / 825600000000)"
  "getInitialInvestment (returnServiceAt smallDeal (Fin 1000)) = Fin 1032"
  unfolding getCashflows_chain getReturns_avgYield years_as_Suc
  using payment_without_loan [OF ordinary_smallDeal, of "1000"]
  by (simp_all add: year_defs service_defs rate_defs Let_def smallDeal_def
      getInitialInvestment_def getClosingCosts_def)


lemma example_units: "unitCount cashDeal = Fin 2" "unitCount smallDeal = Fin 1"
  by (simp_all add: cashDeal_def exampleDeal_def smallDeal_def)

text \<open>
  Three verdicts: the example deal bought without a loan is \<open>'good'\<close> at the price
  100000 and \<open>'bad'\<close> at 372000, where its average yield is below 0.25; the small deal
  is \<open>'max'\<close> at the price 1000, the floor of its average cashflow being the threshold
  1200.
\<close>

theorem classification_witness:
  "checkDealCriteria (analyserAt cashDeal (Fin 100000)) = Good \<and>
   checkDealCriteria (analyserAt cashDeal (Fin 372000)) = Bad \<and>
   checkDealCriteria (analyserAt smallDeal (Fin 1000)) = Max \<and>
   floor_number (avgCashflow (getCashflows (returnServiceAt smallDeal (Fin 1000)))) = Fin 1200"
  using classification [of cashDeal "Fin 100000"] classification [of cashDeal "Fin 372000"]
    classification [of smallDeal "Fin 1000"]
  by (simp add: Let_def cashDeal_good cashDeal_bad smallDeal_max getAvgCOCROI_def
      example_units)

lemma cashDeal_series:
  "cashflows (getCashflows (returnServiceAt cashDeal (Fin 100000))) =
     [Fin (- 103200), Fin (199636 / 5), Fin (1030322 / 25), Fin (21265351 / 500),
      Fin (877629391 / 20000), Fin (186901848249 / 3200000)]"
  unfolding getCashflows_chain years_as_Suc
  using payment_without_loan [OF ordinary_cashDeal, of "100000"]
  by (simp add: year_defs service_defs rate_defs Let_def exampleDeal_def cashDeal_def
      getInitialInvestment_def getClosingCosts_def)

lemma cashDeal_irr:
  "calculateIRR [Fin (- 103200), Fin (199636 / 5), Fin (1030322 / 25), Fin (21265351 / 500),
      Fin (877629391 / 20000), Fin (186901848249 / 3200000)] =
     Inr (Fin (10693606845 / 34359738368))"
  by (simp add: calculateIRR_def irr_loop.simps maxIterations_def tolerance_def npv_at_def
      fin_pow_def is_int_def upt_rec Let_def power_divide)

text \<open>
  Three rates of return: the series \<open>[-1000, 1100]\<close> converges; the series of the
  interest-free example deal does not, and \<open>getIRR\<close> is 0; the series of the example
  deal bought without a loan at the price 100000 converges at the 35th midpoint, and
  \<open>getIRR\<close> is that rate.
\<close>

theorem irr_bisection_witness:
  "calculateIRR [Fin (- 1000), Fin 1100] = Inr (Fin (53687091 / 536870912)) \<and>
   \<bar>npv_at [Fin (- 1000), Fin 1100] (Fin (53687091 / 536870912))\<bar> < Fin (1 / 10 ^ 6) \<and>
   calculateIRR (cashflows (getCashflows (returnServiceAt zeroRateDeal (Fin 372000)))) =
     Inl ''IRR calculation did not converge'' \<and>
   getIRR (returnServiceAt zeroRateDeal (Fin 372000)) = Fin 0 \<and>
   calculateIRR (cashflows (getCashflows (returnServiceAt cashDeal (Fin 100000)))) =
     Inr (Fin (10693606845 / 34359738368)) \<and>
   getIRR (returnServiceAt cashDeal (Fin 100000)) = Fin (10693606845 / 34359738368)"
proof -
  have cash: "calculateIRR (cashflows (getCashflows (returnServiceAt cashDeal (Fin 100000)))) =
      Inr (Fin (10693606845 / 34359738368))"
    unfolding cashDeal_series by (rule cashDeal_irr)
  show ?thesis
    using irr_bisection [of "[Fin (- 1000), Fin 1100]" "returnServiceAt zeroRateDeal (Fin 372000)"]
      irr_bisection [of "[]" "returnServiceAt cashDeal (Fin 100000)"]
      irr_example zero_rate_irr [of "Fin 372000"] cash
    by simp
qed

section \<open>The verdict along the prices\<close>


lemma zero_plus [simp]: "Fin 0 + a = a"
  by (cases a) simp_all

lemma plus_Fin_Fin [simp]: "a + Fin x + Fin y = a + Fin (x + y)"
  by (cases a) simp_all














section \<open>Example deals along the prices\<close>







section \<open>Large prices\<close>




end
